theory Spec2Isabelle
  imports Main "HOL-Library.Sublist"
begin

section \<open>Python values read from the MISP file\<close>

text \<open>
  \<^verbatim>\<open>json.load\<close> yields \<^verbatim>\<open>None\<close>, booleans, unbounded integers, floats, strings, lists
  and dicts. A float is kept as \<open>m * 2 ^ e\<close> (every IEEE double is of that form), or as
  an infinity or a NaN, which \<^verbatim>\<open>json.load\<close> accepts. A dict is an association list in
  insertion order; a key is looked up with \<open>map_of\<close>.
\<close>

datatype pyfloat = FNum int int | FInf bool | FNaN

datatype json =
    JNull
  | JBool bool
  | JInt int
  | JFloat pyfloat
  | JStr string
  | JList "json list"
  | JObj "(string \<times> json) list"

text \<open>The exceptions the converter can meet; \<open>STIXError\<close> is any error of the stix2 package.\<close>

datatype exn =
    TypeError
  | AttributeError
  | KeyError
  | ValueError
  | OverflowError
  | IOError
  | JSONDecodeError
  | UnicodeDecodeError
  | STIXError

definition bind :: "exn + 'a \<Rightarrow> ('a \<Rightarrow> exn + 'b) \<Rightarrow> exn + 'b" where
  "bind m f = (case m of Inl e \<Rightarrow> Inl e | Inr x \<Rightarrow> f x)"

subsection \<open>The Python operations the converter applies to these values\<close>

text \<open>\<^verbatim>\<open>key in obj\<close>: key membership on a dict, substring test on a string, element
  membership on a list, \<^verbatim>\<open>TypeError\<close> on everything else.\<close>

definition py_in :: "string \<Rightarrow> json \<Rightarrow> exn + bool" where
  "py_in key obj =
     (case obj of
        JObj kvs \<Rightarrow> Inr (key \<in> set (map fst kvs))
      | JStr s \<Rightarrow> Inr (sublist key s)
      | JList xs \<Rightarrow> Inr (JStr key \<in> set xs)
      | _ \<Rightarrow> Inl TypeError)"

text \<open>\<^verbatim>\<open>all(key in obj for key in keys)\<close>: the generator is consumed left to right and
  stops at the first key that is not there.\<close>

fun py_all_in :: "string list \<Rightarrow> json \<Rightarrow> exn + bool" where
  "py_all_in [] obj = Inr True"
| "py_all_in (key # keys) obj =
     bind (py_in key obj) (\<lambda>b. if b then py_all_in keys obj else Inr False)"

text \<open>\<^verbatim>\<open>obj[key]\<close> with a string key.\<close>

definition py_subscript :: "json \<Rightarrow> string \<Rightarrow> exn + json" where
  "py_subscript obj key =
     (case obj of
        JObj kvs \<Rightarrow> (case map_of kvs key of None \<Rightarrow> Inl KeyError | Some v \<Rightarrow> Inr v)
      | _ \<Rightarrow> Inl TypeError)"

text \<open>\<^verbatim>\<open>obj.get(key, default)\<close>: only a dict has the method.\<close>

definition py_get :: "json \<Rightarrow> string \<Rightarrow> json \<Rightarrow> exn + json" where
  "py_get obj key dflt =
     (case obj of
        JObj kvs \<Rightarrow> Inr (case map_of kvs key of None \<Rightarrow> dflt | Some v \<Rightarrow> v)
      | _ \<Rightarrow> Inl AttributeError)"

text \<open>Truth value of a value in an \<^verbatim>\<open>if\<close>.\<close>

definition py_truthy :: "json \<Rightarrow> bool" where
  "py_truthy v =
     (case v of
        JNull \<Rightarrow> False
      | JBool b \<Rightarrow> b
      | JInt n \<Rightarrow> n \<noteq> 0
      | JFloat f \<Rightarrow> (case f of FNum m e \<Rightarrow> m \<noteq> 0 | _ \<Rightarrow> True)
      | JStr s \<Rightarrow> s \<noteq> []
      | JList xs \<Rightarrow> xs \<noteq> []
      | JObj kvs \<Rightarrow> kvs \<noteq> [])"

text \<open>Iteration (\<^verbatim>\<open>for x in v\<close>, \<^verbatim>\<open>list(v)\<close>): the elements of a list, the keys of a dict,
  the characters of a string; a number, a boolean and \<^verbatim>\<open>None\<close> are not iterable.\<close>

definition py_iter :: "json \<Rightarrow> exn + json list" where
  "py_iter v =
     (case v of
        JList xs \<Rightarrow> Inr xs
      | JObj kvs \<Rightarrow> Inr (map (\<lambda>kv. JStr (fst kv)) kvs)
      | JStr s \<Rightarrow> Inr (map (\<lambda>c. JStr [c]) s)
      | _ \<Rightarrow> Inl TypeError)"

subsection \<open>\<^verbatim>\<open>int\<close> of a float\<close>

text \<open>A float is truncated towards zero; an infinity raises \<^verbatim>\<open>OverflowError\<close>, a NaN
  \<^verbatim>\<open>ValueError\<close>.\<close>

definition int_of_float :: "pyfloat \<Rightarrow> exn + int" where
  "int_of_float f =
     (case f of
        FNum m e \<Rightarrow>
          Inr (if 0 \<le> e then m * 2 ^ nat e
               else if 0 \<le> m then m div 2 ^ nat (- e)
               else - ((- m) div 2 ^ nat (- e)))
      | FInf b \<Rightarrow> Inl OverflowError
      | FNaN \<Rightarrow> Inl ValueError)"

section \<open>STIX objects and the external packages\<close>

text \<open>
  The stix2 package, Python's \<^verbatim>\<open>str\<close> of a value that is not a string, \<^verbatim>\<open>int\<close> of a
  string and the random \<^verbatim>\<open>uuid.uuid4\<close> are outside the repository, so they are parameters
  of the model: \<open>int_of_str lib s\<close> is what \<^verbatim>\<open>int\<close> reads from the string \<open>s\<close>, or nothing
  when it raises \<^verbatim>\<open>ValueError\<close>; \<open>uuid4 lib k\<close> is the text of the \<open>k\<close>-th UUID drawn during
  a run; the two \<open>accepts\<close> fields say which keyword arguments the constructors of stix2
  take without raising.
\<close>

record external_reference =
  source_name :: string
  url :: string

text \<open>The keyword arguments \<^verbatim>\<open>create_threat_actor\<close> hands to \<^verbatim>\<open>stix2.ThreatActor\<close>.\<close>

record threat_actor_kwargs =
  kw_id :: string
  kw_name :: json
  kw_description :: json
  kw_aliases :: "json list"
  kw_labels :: "string list"
  kw_external_references :: "external_reference list"
  kw_confidence :: int

text \<open>The object the constructor returns: its string properties are strings, and it has
  a description or none.\<close>

record threat_actor =
  ta_id :: string
  ta_name :: string
  ta_description :: "string option"
  ta_aliases :: "string list"
  ta_labels :: "string list"
  ta_external_references :: "external_reference list"
  ta_confidence :: int

text \<open>A relationship is constructed from strings and a number only, and holds them as
  they are.\<close>

record relationship =
  rel_id :: string
  relationship_type :: string
  source_ref :: string
  target_ref :: string
  rel_description :: string
  rel_confidence :: int

datatype stix_object = Actor threat_actor | Edge relationship

record library =
  ThreatActor_accepts :: "threat_actor_kwargs \<Rightarrow> bool"
  Relationship_accepts :: "relationship \<Rightarrow> bool"
  serialize :: "stix_object \<Rightarrow> json"
  repr_of :: "json \<Rightarrow> string"
  int_of_str :: "string \<Rightarrow> int option"
  uuid4 :: "nat \<Rightarrow> string"

text \<open>A value inside an f-string: a string stands for itself.\<close>

definition py_str :: "library \<Rightarrow> json \<Rightarrow> string" where
  "py_str lib v = (case v of JStr s \<Rightarrow> s | _ \<Rightarrow> repr_of lib v)"

text \<open>\<^verbatim>\<open>int(v)\<close>: a number is truncated, a string is read, anything else raises
  \<^verbatim>\<open>TypeError\<close>.\<close>

definition py_int :: "library \<Rightarrow> json \<Rightarrow> exn + int" where
  "py_int lib v =
     (case v of
        JInt n \<Rightarrow> Inr n
      | JBool b \<Rightarrow> Inr (if b then 1 else 0)
      | JFloat f \<Rightarrow> int_of_float f
      | JStr s \<Rightarrow> (case int_of_str lib s of None \<Rightarrow> Inl ValueError | Some n \<Rightarrow> Inr n)
      | _ \<Rightarrow> Inl TypeError)"

text \<open>
  What \<^verbatim>\<open>stix2.ThreatActor\<close> does with its keyword arguments. The constructor first
  drops every argument whose value is \<^verbatim>\<open>None\<close> or the empty list, so the object then
  lacks that property, and a missing name is an error. A value given for a string
  property (name, description, each alias) that is not a string is replaced by its
  \<^verbatim>\<open>str\<close>. The identifier, the labels, the references and the confidence are kept as
  given. Every other check of the package is the parameter \<open>ThreatActor_accepts\<close>.
\<close>

definition dropped :: "json \<Rightarrow> bool" where
  "dropped v = (v = JNull \<or> v = JList [])"

definition ThreatActor :: "library \<Rightarrow> threat_actor_kwargs \<Rightarrow> exn + threat_actor" where
  "ThreatActor lib kw =
     (if dropped (kw_name kw) \<or> \<not> ThreatActor_accepts lib kw then Inl STIXError
      else Inr \<lparr>ta_id = kw_id kw,
                ta_name = py_str lib (kw_name kw),
                ta_description =
                  (if dropped (kw_description kw) then None
                   else Some (py_str lib (kw_description kw))),
                ta_aliases = map (py_str lib) (kw_aliases kw),
                ta_labels = kw_labels kw,
                ta_external_references = kw_external_references kw,
                ta_confidence = kw_confidence kw\<rparr>)"

section \<open>The converter\<close>

text \<open>Log lines are not part of the model, except where building one can raise.\<close>

subsection \<open>\<^verbatim>\<open>_sanitize_list\<close>\<close>

definition sanitize_list :: "json \<Rightarrow> exn + json list" where
  "sanitize_list v =
     (case v of
        JNull \<Rightarrow> Inr []
      | JStr s \<Rightarrow> Inr [JStr s]
      | _ \<Rightarrow> py_iter v)"

subsection \<open>\<^verbatim>\<open>create_threat_actor\<close>\<close>

definition is_str :: "json \<Rightarrow> bool" where
  "is_str v = (case v of JStr s \<Rightarrow> True | _ \<Rightarrow> False)"

definition the_str :: "json \<Rightarrow> string" where
  "the_str v = (case v of JStr s \<Rightarrow> s | _ \<Rightarrow> [])"

text \<open>The body of the \<^verbatim>\<open>try\<close> block: \<open>Inr None\<close> is the early \<^verbatim>\<open>return None\<close>, and the
  actor returned is the object the constructor built.\<close>

definition create_threat_actor_try :: "library \<Rightarrow> json \<Rightarrow> exn + threat_actor option" where
  "create_threat_actor_try lib item =
     bind (py_all_in [''uuid'', ''value''] item) (\<lambda>ok.
     if \<not> ok then Inr None else
     bind (py_subscript item ''uuid'') (\<lambda>u.
     let actor_id = ''threat-actor--'' @ py_str lib u in
     bind (py_get item ''meta'' (JObj [])) (\<lambda>meta.
     bind (py_get meta ''synonyms'' JNull) (\<lambda>syn.
     bind (sanitize_list syn) (\<lambda>synonyms.
     bind (py_get meta ''refs'' JNull) (\<lambda>rf.
     bind (sanitize_list rf) (\<lambda>refs.
     bind (py_get meta ''country'' JNull) (\<lambda>country.
     bind (if py_truthy country
           then bind (py_subscript meta ''country'') (\<lambda>c. Inr [''Country: '' @ py_str lib c])
           else Inr []) (\<lambda>labels1.
     bind (py_get meta ''targeted-sector'' JNull) (\<lambda>sector.
     bind (if py_truthy sector
           then bind (py_subscript meta ''targeted-sector'')
                  (\<lambda>t. Inr (labels1 @ [''Targeted Sector: '' @ py_str lib t]))
           else Inr labels1) (\<lambda>labels.
     let external_references =
           map (\<lambda>ref. \<lparr>source_name = ''MISP'', url = the_str ref\<rparr>) (filter is_str refs) in
     bind (py_subscript item ''value'') (\<lambda>name.
     bind (py_get item ''description'' (JStr ''No description available.'')) (\<lambda>description.
     bind (py_get meta ''attribution-confidence'' (JInt 50)) (\<lambda>conf.
     bind (py_int lib conf) (\<lambda>confidence.
     bind (ThreatActor lib
             \<lparr>kw_id = actor_id, kw_name = name, kw_description = description,
              kw_aliases = synonyms, kw_labels = labels,
              kw_external_references = external_references,
              kw_confidence = confidence\<rparr>) (\<lambda>threat_actor.
     Inr (Some threat_actor)))))))))))))))))"

text \<open>The handler of \<^verbatim>\<open>except Exception\<close> formats \<^verbatim>\<open>item.get('value', 'Unknown')\<close> into its log
  line before it returns \<^verbatim>\<open>None\<close>; an exception raised there leaves the function.\<close>

definition create_threat_actor :: "library \<Rightarrow> json \<Rightarrow> exn + threat_actor option" where
  "create_threat_actor lib item =
     (case create_threat_actor_try lib item of
        Inr r \<Rightarrow> Inr r
      | Inl e \<Rightarrow> bind (py_get item ''value'' (JStr ''Unknown'')) (\<lambda>v. Inr None))"

subsection \<open>\<^verbatim>\<open>create_relationships\<close>\<close>

text \<open>One stub inside the \<^verbatim>\<open>try\<close> of the loop body; \<^verbatim>\<open>uuid.uuid4()\<close> has been drawn
  before the stub is subscripted.\<close>

definition relationship_try :: "library \<Rightarrow> string \<Rightarrow> json \<Rightarrow> nat \<Rightarrow> exn + relationship" where
  "relationship_try lib source_actor_id relation n =
     bind (py_subscript relation ''dest-uuid'') (\<lambda>d.
     bind (py_subscript relation ''type'') (\<lambda>t.
     let relationship =
           \<lparr>rel_id = ''relationship--'' @ uuid4 lib n,
            relationship_type = ''related-to'',
            source_ref = source_actor_id,
            target_ref = ''threat-actor--'' @ py_str lib d,
            rel_description = ''Relationship type: '' @ py_str lib t,
            rel_confidence = 80\<rparr> in
     if Relationship_accepts lib relationship then Inr relationship else Inl STIXError))"

fun relationships_loop ::
  "library \<Rightarrow> string \<Rightarrow> json list \<Rightarrow> relationship list \<Rightarrow> nat \<Rightarrow> relationship list \<times> nat" where
  "relationships_loop lib source_actor_id [] relationships n = (relationships, n)"
| "relationships_loop lib source_actor_id (relation # rest) relationships n =
     (case py_all_in [''dest-uuid'', ''type''] relation of
        Inl e \<Rightarrow> relationships_loop lib source_actor_id rest relationships n
      | Inr ok \<Rightarrow>
          if \<not> ok then relationships_loop lib source_actor_id rest relationships n
          else
            (case relationship_try lib source_actor_id relation n of
               Inl e \<Rightarrow> relationships_loop lib source_actor_id rest relationships (Suc n)
             | Inr relationship \<Rightarrow>
                 relationships_loop lib source_actor_id rest
                   (relationships @ [relationship]) (Suc n)))"

definition create_relationships ::
  "library \<Rightarrow> string \<Rightarrow> json \<Rightarrow> nat \<Rightarrow> exn + relationship list \<times> nat" where
  "create_relationships lib source_actor_id related_items n =
     bind (py_iter related_items) (\<lambda>stubs.
     Inr (relationships_loop lib source_actor_id stubs [] n))"

subsection \<open>\<^verbatim>\<open>load_misp_data\<close> and \<^verbatim>\<open>convert\<close>\<close>

text \<open>A file holds bytes that are not UTF-8, text that is not JSON, or a JSON document.\<close>

datatype file_content = Not_utf8 | Not_json | Json_text json

type_synonym files = "string \<Rightarrow> file_content option"

definition load_misp_data :: "files \<Rightarrow> string \<Rightarrow> exn + json" where
  "load_misp_data fs input_file =
     (case fs input_file of
        None \<Rightarrow> Inl IOError
      | Some Not_utf8 \<Rightarrow> Inl UnicodeDecodeError
      | Some Not_json \<Rightarrow> Inl JSONDecodeError
      | Some (Json_text misp_data) \<Rightarrow>
          (case misp_data of
             JObj kvs \<Rightarrow>
               if ''values'' \<notin> set (map fst kvs) then Inl ValueError else Inr misp_data
           | _ \<Rightarrow> Inl ValueError))"

text \<open>The \<^verbatim>\<open>for\<close> loop of \<^verbatim>\<open>convert\<close>, with the list \<^verbatim>\<open>stix_objects\<close> it appends to and
  the number of UUIDs drawn so far. A constructed stix2 object is a mapping that is never
  empty, so \<^verbatim>\<open>if threat_actor\<close> holds exactly when an actor was returned.\<close>

fun convert_loop ::
  "library \<Rightarrow> json list \<Rightarrow> stix_object list \<Rightarrow> nat \<Rightarrow> exn + stix_object list \<times> nat" where
  "convert_loop lib [] stix_objects n = Inr (stix_objects, n)"
| "convert_loop lib (item # rest) stix_objects n =
     bind (create_threat_actor lib item) (\<lambda>built.
     case built of
       None \<Rightarrow> convert_loop lib rest stix_objects n
     | Some threat_actor \<Rightarrow>
         bind (py_get item ''related'' JNull) (\<lambda>rel.
         if py_truthy rel then
           bind (py_subscript item ''related'') (\<lambda>related.
           bind (create_relationships lib (ta_id threat_actor) related n) (\<lambda>(relationships, n').
           convert_loop lib rest
             ((stix_objects @ [Actor threat_actor]) @ map Edge relationships) n'))
         else convert_loop lib rest (stix_objects @ [Actor threat_actor]) n))"

definition stix_bundle_data :: "library \<Rightarrow> stix_object list \<Rightarrow> nat \<Rightarrow> json" where
  "stix_bundle_data lib stix_objects n =
     JObj [(''type'', JStr ''bundle''),
           (''id'', JStr (''bundle--'' @ uuid4 lib n)),
           (''spec_version'', JStr ''2.0''),
           (''objects'', JList (map (serialize lib) stix_objects))]"

text \<open>The objects built from a loaded document: lines 176 to 195 of the source.\<close>

definition build_objects :: "library \<Rightarrow> json \<Rightarrow> exn + stix_object list \<times> nat" where
  "build_objects lib misp_data =
     bind (py_get misp_data ''values'' (JList [])) (\<lambda>values.
     bind (py_iter values) (\<lambda>items.
     bind (convert_loop lib items [] 0) (\<lambda>(stix_objects, n).
     if stix_objects = [] then Inl ValueError else Inr (stix_objects, n))))"

text \<open>\<^verbatim>\<open>convert\<close> returns nothing or re-raises; the files are returned as it leaves them.
  Opening the output path for writing is taken to succeed.\<close>

definition convert :: "library \<Rightarrow> string \<Rightarrow> string \<Rightarrow> files \<Rightarrow> (exn + unit) \<times> files" where
  "convert lib input_file output_file fs =
     (case bind (load_misp_data fs input_file) (build_objects lib) of
        Inl e \<Rightarrow> (Inl e, fs)
      | Inr (stix_objects, n) \<Rightarrow>
          (Inr (), fs(output_file \<mapsto> Json_text (stix_bundle_data lib stix_objects n))))"

section \<open>A stand-in for the external packages\<close>

text \<open>
  Concrete runs need concrete packages. This stand-in accepts an object when its
  identifiers are a type name, two hyphens and a UUID in the canonical 8-4-4-4-12
  hexadecimal form and its confidence lies in 0..100, as the stix2 package demands; it
  draws its UUIDs from a fixed list. Its \<open>sample_int\<close> reads a string of ASCII characters
  as \<^verbatim>\<open>int\<close> does: white space around (tab to carriage return, and the space), an
  optional sign, decimal digits with single underscores between two digits, at most
  4300 digits. It reads nothing from a string with other bytes, where \<^verbatim>\<open>int\<close> also
  reads the decimal digits and the white space of other scripts. Its serializer leaves
  out a property the object lacks.
\<close>

definition ascii_space :: "char \<Rightarrow> bool" where
  "ascii_space c = (c \<in> set [CHR '' '', CHR 0x09, CHR 0x0A, CHR 0x0B, CHR 0x0C, CHR 0x0D])"

definition ascii_strip :: "string \<Rightarrow> string" where
  "ascii_strip s = rev (dropWhile ascii_space (rev (dropWhile ascii_space s)))"

definition is_digit :: "char \<Rightarrow> bool" where
  "is_digit c = (c \<in> set ''0123456789'')"

definition digit_val :: "char \<Rightarrow> nat" where
  "digit_val c = of_char c - of_char CHR ''0''"

fun ascii_digits :: "nat \<Rightarrow> string \<Rightarrow> nat option" where
  "ascii_digits acc [] = Some acc"
| "ascii_digits acc [c] = (if is_digit c then Some (acc * 10 + digit_val c) else None)"
| "ascii_digits acc (c # d # cs) =
     (if c = CHR ''_'' then (if is_digit d then ascii_digits acc (d # cs) else None)
      else if is_digit c then ascii_digits (acc * 10 + digit_val c) (d # cs)
      else None)"

definition ascii_number :: "string \<Rightarrow> nat option" where
  "ascii_number s = (case s of [] \<Rightarrow> None | c # cs \<Rightarrow> if is_digit c then ascii_digits 0 s else None)"

definition sample_int :: "string \<Rightarrow> int option" where
  "sample_int s =
     (if 4300 < length (filter is_digit s) then None
      else
        (case ascii_strip s of
           [] \<Rightarrow> None
         | c # cs \<Rightarrow>
             if c = CHR ''-'' then map_option (\<lambda>n. - int n) (ascii_number cs)
             else if c = CHR ''+'' then map_option int (ascii_number cs)
             else map_option int (ascii_number (c # cs))))"


definition hexdigit :: "char \<Rightarrow> bool" where
  "hexdigit c = (c \<in> set ''0123456789abcdef'')"

fun split_on :: "char \<Rightarrow> string \<Rightarrow> string list" where
  "split_on c [] = [[]]"
| "split_on c (x # xs) =
     (if x = c then [] # split_on c xs
      else (case split_on c xs of [] \<Rightarrow> [[x]] | p # ps \<Rightarrow> (x # p) # ps))"

definition uuid_shaped :: "string \<Rightarrow> bool" where
  "uuid_shaped s =
     (map length (split_on CHR ''-'' s) = [8, 4, 4, 4, 12] \<and>
      list_all (list_all hexdigit) (split_on CHR ''-'' s))"

fun strip_prefix :: "string \<Rightarrow> string \<Rightarrow> string option" where
  "strip_prefix [] s = Some s"
| "strip_prefix (p # ps) [] = None"
| "strip_prefix (p # ps) (c # cs) = (if p = c then strip_prefix ps cs else None)"

definition stix_id :: "string \<Rightarrow> string \<Rightarrow> bool" where
  "stix_id type_name s =
     (case strip_prefix (type_name @ ''--'') s of None \<Rightarrow> False | Some u \<Rightarrow> uuid_shaped u)"

definition sample_uuids :: "string list" where
  "sample_uuids =
     [''0b0f0c8e-6f0d-4a6b-9d3a-5f2c8b1e7a01'',
      ''1c1e1d9f-7a1e-4b7c-8e4b-6a3d9c2f8b02'',
      ''2d2f2eaa-8b2f-4c8d-9f5c-7b4ead3a9c03'',
      ''3e3a3fbb-9c3a-4d9e-8a6d-8c5fbe4bad04'']"

definition listed :: "string \<Rightarrow> json list \<Rightarrow> (string \<times> json) list" where
  "listed key xs = (if xs = [] then [] else [(key, JList xs)])"

definition sample_serialize :: "stix_object \<Rightarrow> json" where
  "sample_serialize obj =
     (case obj of
        Actor a \<Rightarrow>
          JObj ([(''type'', JStr ''threat-actor''), (''id'', JStr (ta_id a)),
                 (''name'', JStr (ta_name a))]
                @ (case ta_description a of None \<Rightarrow> [] | Some d \<Rightarrow> [(''description'', JStr d)])
                @ listed ''aliases'' (map JStr (ta_aliases a))
                @ listed ''labels'' (map JStr (ta_labels a))
                @ listed ''external_references''
                    (map (\<lambda>r. JObj [(''source_name'', JStr (source_name r)),
                                       (''url'', JStr (url r))])
                       (ta_external_references a))
                @ [(''confidence'', JInt (ta_confidence a))])
      | Edge r \<Rightarrow>
          JObj [(''type'', JStr ''relationship''), (''id'', JStr (rel_id r)),
                (''relationship_type'', JStr (relationship_type r)),
                (''source_ref'', JStr (source_ref r)),
                (''target_ref'', JStr (target_ref r)),
                (''description'', JStr (rel_description r)),
                (''confidence'', JInt (rel_confidence r))])"

function decimal :: "nat \<Rightarrow> string" where
  "decimal n =
     (if n < 10 then [''0123456789'' ! n]
      else decimal (n div 10) @ [''0123456789'' ! (n mod 10)])"
  by pat_completeness auto
termination
  by (relation "measure (\<lambda>n. n)") auto

definition sample_repr :: "json \<Rightarrow> string" where
  "sample_repr v =
     (case v of
        JNull \<Rightarrow> ''None''
      | JBool b \<Rightarrow> (if b then ''True'' else ''False'')
      | JInt i \<Rightarrow>
          (if i < 0 then CHR ''-'' # decimal (nat (- i)) else decimal (nat i))
      | _ \<Rightarrow> ''...'')"

definition sample_library :: library where
  "sample_library =
     \<lparr>ThreatActor_accepts =
        (\<lambda>kw. stix_id ''threat-actor'' (kw_id kw) \<and>
               0 \<le> kw_confidence kw \<and> kw_confidence kw \<le> 100),
      Relationship_accepts =
        (\<lambda>r. stix_id ''relationship'' (rel_id r) \<and>
              stix_id ''threat-actor'' (source_ref r) \<and>
              stix_id ''threat-actor'' (target_ref r)),
      serialize = sample_serialize,
      repr_of = sample_repr,
      int_of_str = sample_int,
      uuid4 = (\<lambda>k. sample_uuids ! (k mod 4))\<rparr>"

section \<open>What the specification says, for comparison with the code\<close>

text \<open>
  The edge the specification describes for one related-entity stub: a mapping with both
  fields gives a relationship of kind related-to, confidence 80, aimed at the
  destination, its description echoing the relation kind; it exists only if the stix2
  constructor accepts it. \<open>k\<close> is the index of the UUID drawn for it.
\<close>

definition spec_edge :: "library \<Rightarrow> string \<Rightarrow> json \<Rightarrow> nat \<Rightarrow> relationship option" where
  "spec_edge lib src stub k =
     (case stub of
        JObj kvs \<Rightarrow>
          (case map_of kvs ''dest-uuid'' of
             None \<Rightarrow> None
           | Some d \<Rightarrow>
               (case map_of kvs ''type'' of
                  None \<Rightarrow> None
                | Some t \<Rightarrow>
                    (let r = \<lparr>rel_id = ''relationship--'' @ uuid4 lib k,
                               relationship_type = ''related-to'',
                               source_ref = src,
                               target_ref = ''threat-actor--'' @ py_str lib d,
                               rel_description = ''Relationship type: '' @ py_str lib t,
                               rel_confidence = 80\<rparr>
                     in if Relationship_accepts lib r then Some r else None)))
      | _ \<Rightarrow> None)"

text \<open>A stub draws a UUID when it passes the presence check of the loop; \<open>draw_indices\<close>
  gives, for each stub of a list, the number of UUIDs drawn before it.\<close>

definition draws :: "json \<Rightarrow> bool" where
  "draws stub = (py_all_in [''dest-uuid'', ''type''] stub = Inr True)"

fun draw_indices :: "nat \<Rightarrow> json list \<Rightarrow> nat list" where
  "draw_indices n [] = []"
| "draw_indices n (stub # rest) = n # draw_indices (if draws stub then Suc n else n) rest"

text \<open>The edges of a list of stubs: one per stub that has one, in the order of the stubs.\<close>

definition spec_edges :: "library \<Rightarrow> string \<Rightarrow> json list \<Rightarrow> nat \<Rightarrow> relationship list" where
  "spec_edges lib src stubs n =
     List.map_filter (\<lambda>(stub, k). spec_edge lib src stub k) (zip stubs (draw_indices n stubs))"

text \<open>The stubs \<^verbatim>\<open>convert\<close> hands to \<^verbatim>\<open>create_relationships\<close> for a record: none when
  \<^verbatim>\<open>item.get("related")\<close> is false.\<close>

definition related_stubs :: "json \<Rightarrow> json list" where
  "related_stubs item =
     (case py_get item ''related'' JNull of
        Inl e \<Rightarrow> []
      | Inr rel \<Rightarrow>
          if py_truthy rel then (case py_iter rel of Inl e \<Rightarrow> [] | Inr stubs \<Rightarrow> stubs)
          else [])"

text \<open>The identifiers of the actors in a list of objects, in order.\<close>

fun actor_ids :: "stix_object list \<Rightarrow> string list" where
  "actor_ids [] = []"
| "actor_ids (Actor a # objs) = ta_id a # actor_ids objs"
| "actor_ids (Edge r # objs) = actor_ids objs"

text \<open>Whether an actor is built from a record, and the text of the record's uuid.\<close>

definition built :: "library \<Rightarrow> json \<Rightarrow> bool" where
  "built lib item = (case create_threat_actor lib item of Inr (Some a) \<Rightarrow> True | _ \<Rightarrow> False)"

definition uuid_text :: "library \<Rightarrow> json \<Rightarrow> string" where
  "uuid_text lib item = (case py_subscript item ''uuid'' of Inr u \<Rightarrow> py_str lib u | Inl e \<Rightarrow> [])"

section \<open>Example documents\<close>

abbreviation uuid_a :: string where
  "uuid_a \<equiv> ''5b4ee3ea-eee3-4c8e-8323-85ae32658754''"

abbreviation uuid_b :: string where
  "uuid_b \<equiv> ''7cd1a1f0-2c66-4a5e-9d3e-1f0d6a7b8c90''"

abbreviation uuid_c :: string where
  "uuid_c \<equiv> ''9e8d7c6b-5a49-4382-a716-0f1e2d3c4b5a''"

definition actor_of :: "string \<Rightarrow> string \<Rightarrow> threat_actor" where
  "actor_of u name =
     \<lparr>ta_id = ''threat-actor--'' @ u, ta_name = name,
      ta_description = Some ''No description available.'', ta_aliases = [],
      ta_labels = [], ta_external_references = [], ta_confidence = 50\<rparr>"

definition edge_of :: "nat \<Rightarrow> string \<Rightarrow> string \<Rightarrow> string \<Rightarrow> relationship" where
  "edge_of k src dst kind =
     \<lparr>rel_id = ''relationship--'' @ sample_uuids ! k, relationship_type = ''related-to'',
      source_ref = ''threat-actor--'' @ src, target_ref = ''threat-actor--'' @ dst,
      rel_description = ''Relationship type: '' @ kind, rel_confidence = 80\<rparr>"

section \<open>Lemmas about the Python operations\<close>

lemma bind_Inr_iff: "bind m f = Inr r \<longleftrightarrow> (\<exists>x. m = Inr x \<and> f x = Inr r)"
  by (cases m) (simp_all add: bind_def)

lemma bind_simps [simp]: "bind (Inr x) f = f x" "bind (Inl e) f = Inl e"
  by (simp_all add: bind_def)

lemma py_subscript_Inr: "py_subscript obj key = Inr v \<longleftrightarrow> (\<exists>kvs. obj = JObj kvs \<and> map_of kvs key = Some v)"
  by (auto simp: py_subscript_def split: json.splits option.splits)

lemma py_get_JObj [simp]: "py_get (JObj kvs) key d = Inr (case map_of kvs key of None \<Rightarrow> d | Some w \<Rightarrow> w)"
  by (simp add: py_get_def)

lemma py_subscript_JObj [simp]:
  "py_subscript (JObj kvs) key = (case map_of kvs key of None \<Rightarrow> Inl KeyError | Some v \<Rightarrow> Inr v)"
  by (simp add: py_subscript_def)

lemma py_all_in_JObj [simp]:
  "py_all_in keys (JObj kvs) = Inr (set keys \<subseteq> set (map fst kvs))"
  by (induction keys) (auto simp: py_in_def)

lemma dropped_JStr [simp]: "\<not> dropped (JStr s)"
  by (simp add: dropped_def)

lemma py_str_JStr [simp]: "py_str lib (JStr s) = s"
  by (simp add: py_str_def)

lemma create_threat_actor_try_Some:
  assumes "create_threat_actor_try lib item = Inr (Some a)"
  shows "\<exists>kvs u name meta conf d.
           item = JObj kvs \<and> map_of kvs ''uuid'' = Some u \<and> map_of kvs ''value'' = Some name \<and>
           py_get item ''meta'' (JObj []) = Inr meta \<and>
           py_get meta ''attribution-confidence'' (JInt 50) = Inr conf \<and>
           py_int lib conf = Inr (ta_confidence a) \<and>
           ta_id a = ''threat-actor--'' @ py_str lib u \<and>
           ta_name a = py_str lib name \<and>
           d = (case map_of kvs ''description'' of
                  None \<Rightarrow> JStr ''No description available.'' | Some w \<Rightarrow> w) \<and>
           ta_description a = (if dropped d then None else Some (py_str lib d))"
  using assms unfolding create_threat_actor_try_def Let_def
  by (auto simp: bind_Inr_iff py_subscript_Inr ThreatActor_def split: if_splits)

lemma create_threat_actor_Some:
  "create_threat_actor lib item = Inr (Some a) \<longleftrightarrow> create_threat_actor_try lib item = Inr (Some a)"
  by (auto simp: create_threat_actor_def bind_def split: sum.splits)

section \<open>Lemmas about the loops\<close>

lemma spec_edge_not_drawn: "\<not> draws stub \<Longrightarrow> spec_edge lib src stub k = None"
  by (cases stub) (auto simp: draws_def spec_edge_def map_of_eq_None_iff[symmetric] split: option.splits)

lemma relationship_try_spec:
  "relationship_try lib src stub k =
     (case spec_edge lib src stub k of Some r \<Rightarrow> Inr r
      | None \<Rightarrow> Inl (case relationship_try lib src stub k of Inl e \<Rightarrow> e | Inr r \<Rightarrow> TypeError))"
  by (cases stub)
     (auto simp: relationship_try_def spec_edge_def py_subscript_def Let_def split: option.splits)

lemma relationships_loop_spec:
  "relationships_loop lib src stubs acc n =
     (acc @ spec_edges lib src stubs n, n + length (filter draws stubs))"
proof (induction stubs arbitrary: acc n)
  case Nil
  show ?case by (simp add: spec_edges_def List.map_filter_simps)
next
  case (Cons stub rest)
  show ?case
  proof (cases "draws stub")
    case False
    then have "spec_edge lib src stub n = None" by (rule spec_edge_not_drawn)
    moreover from False have "relationships_loop lib src (stub # rest) acc n
        = relationships_loop lib src rest acc n"
      by (auto simp: draws_def split: sum.splits)
    ultimately show ?thesis using False
      by (simp add: Cons.IH spec_edges_def List.map_filter_simps)
  next
    case True
    then have ok: "py_all_in [''dest-uuid'', ''type''] stub = Inr True" by (simp add: draws_def)
    show ?thesis
    proof (cases "spec_edge lib src stub n")
      case None
      then obtain e where "relationship_try lib src stub n = Inl e"
        using relationship_try_spec[of lib src stub n] by simp
      then have "relationships_loop lib src (stub # rest) acc n
          = relationships_loop lib src rest acc (Suc n)"
        using ok by (simp del: py_all_in.simps)
      then show ?thesis using True None
        by (simp add: Cons.IH spec_edges_def List.map_filter_simps)
    next
      case (Some r)
      then have "relationship_try lib src stub n = Inr r"
        using relationship_try_spec[of lib src stub n] by simp
      then have "relationships_loop lib src (stub # rest) acc n
          = relationships_loop lib src rest (acc @ [r]) (Suc n)"
        using ok by (simp del: py_all_in.simps)
      then show ?thesis using True Some
        by (simp add: Cons.IH spec_edges_def List.map_filter_simps)
    qed
  qed
qed

lemma convert_loop_append:
  "convert_loop lib (xs @ ys) objs n =
     bind (convert_loop lib xs objs n) (\<lambda>(o1, k). convert_loop lib ys o1 k)"
proof (induction xs arbitrary: objs n)
  case Nil
  show ?case by simp
next
  case (Cons x xs)
  show ?case
    by (simp add: Cons.IH bind_def split: sum.splits option.splits prod.splits)
qed

lemma convert_loop_acc:
  "convert_loop lib items objs n =
     bind (convert_loop lib items [] n) (\<lambda>(o1, k). Inr (objs @ o1, k))"
proof (induction items arbitrary: objs n)
  case Nil
  show ?case by simp
next
  case (Cons x xs)
  define G where "G = (\<lambda>k. convert_loop lib xs [] k)"
  have IH: "\<And>acc k. convert_loop lib xs acc k = bind (G k) (\<lambda>(o1, k'). Inr (acc @ o1, k'))"
    unfolding G_def by (rule Cons.IH)
  show ?case
    by (simp add: IH bind_def split: sum.splits option.splits prod.splits)
qed

lemma actor_ids_append [simp]: "actor_ids (xs @ ys) = actor_ids xs @ actor_ids ys"
  by (induction xs rule: actor_ids.induct) simp_all

lemma actor_ids_Edge [simp]: "actor_ids (map Edge rs) = []"
  by (induction rs) simp_all

lemma convert_loop_actor_ids:
  "convert_loop lib items objs n = Inr (objs', n') \<Longrightarrow>
   actor_ids objs' =
     actor_ids objs @ map (\<lambda>item. ''threat-actor--'' @ uuid_text lib item) (filter (built lib) items)"
proof (induction items arbitrary: objs n)
  case Nil
  then show ?case by simp
next
  case (Cons x xs)
  show ?case
  proof (cases "create_threat_actor lib x")
    case (Inl e)
    with Cons.prems show ?thesis by simp
  next
    case (Inr b)
    show ?thesis
    proof (cases b)
      case None
      with Inr Cons.prems have "convert_loop lib xs objs n = Inr (objs', n')" by simp
      from Cons.IH[OF this] Inr None show ?thesis by (simp add: built_def)
    next
      case (Some a)
      from Inr Some have "create_threat_actor_try lib x = Inr (Some a)"
        by (simp add: create_threat_actor_Some)
      from create_threat_actor_try_Some[OF this]
      have id: "ta_id a = ''threat-actor--'' @ uuid_text lib x"
        by (auto simp: uuid_text_def)
      have b: "built lib x" using Inr Some by (simp add: built_def)
      from Cons.prems Inr Some obtain acc k where
        "convert_loop lib xs acc k = Inr (objs', n')"
        "actor_ids acc = actor_ids objs @ [ta_id a]"
        by (auto simp: bind_Inr_iff split: if_splits)
      from Cons.IH[OF this(1)] this(2) id b show ?thesis by simp
    qed
  qed
qed

lemma distinct_map_prefix: "distinct (map (\<lambda>x. p @ f x) xs) = distinct (map f xs)"
  by (induction xs) auto

lemma convert_loop_single:
  assumes "convert_loop lib [item] [] k = Inr (chunk, k')"
  shows "chunk =
           (case create_threat_actor lib item of
              Inr (Some a) \<Rightarrow> Actor a # map Edge (spec_edges lib (ta_id a) (related_stubs item) k)
            | _ \<Rightarrow> [])"
proof (cases "create_threat_actor lib item")
  case (Inl e)
  with assms show ?thesis by simp
next
  case (Inr b)
  show ?thesis
  proof (cases b)
    case None
    with Inr assms show ?thesis by simp
  next
    case (Some a)
    from Inr Some have "create_threat_actor_try lib item = Inr (Some a)"
      by (simp add: create_threat_actor_Some)
    from create_threat_actor_try_Some[OF this] obtain kvs where item: "item = JObj kvs"
      by blast
    show ?thesis
    proof (cases "py_truthy (case map_of kvs ''related'' of None \<Rightarrow> JNull | Some w \<Rightarrow> w)")
      case False
      with assms Inr Some item show ?thesis
        by (simp add: related_stubs_def spec_edges_def List.map_filter_simps)
    next
      case True
      then obtain rel where rel: "map_of kvs ''related'' = Some rel" "py_truthy rel"
        by (cases "map_of kvs ''related''") (auto simp: py_truthy_def)
      with assms Inr Some item obtain rels where
        r: "create_relationships lib (ta_id a) rel k = Inr (rels, k')" "chunk = Actor a # map Edge rels"
        by (auto simp: bind_Inr_iff)
      from r(1) obtain stubs where stubs: "py_iter rel = Inr stubs"
        by (auto simp: create_relationships_def bind_Inr_iff)
      with r(1) have "rels = spec_edges lib (ta_id a) stubs k"
        by (simp add: create_relationships_def relationships_loop_spec)
      with r(2) rel stubs item Inr Some show ?thesis
        by (simp add: related_stubs_def)
    qed
  qed
qed

lemma convert_loop_order:
  assumes "convert_loop lib (xs @ item # ys) objs n = Inr (objs', n')"
  shows "\<exists>X k chunk k' Y.
           convert_loop lib xs [] n = Inr (X, k) \<and>
           convert_loop lib [item] [] k = Inr (chunk, k') \<and>
           convert_loop lib ys [] k' = Inr (Y, n') \<and>
           objs' = objs @ X @ chunk @ Y \<and>
           chunk =
             (case create_threat_actor lib item of
                Inr (Some a) \<Rightarrow>
                  Actor a # map Edge (spec_edges lib (ta_id a) (related_stubs item) k)
              | _ \<Rightarrow> [])"
proof -
  from assms obtain o1 k where
    A: "convert_loop lib xs objs n = Inr (o1, k)" and
    B: "convert_loop lib ([item] @ ys) o1 k = Inr (objs', n')"
    by (auto simp: convert_loop_append[of lib xs] bind_Inr_iff)
  from B obtain o2 k' where
    C: "convert_loop lib [item] o1 k = Inr (o2, k')" and
    D: "convert_loop lib ys o2 k' = Inr (objs', n')"
    by (auto simp only: convert_loop_append[of lib "[item]"] bind_Inr_iff split: prod.splits)
  from A obtain X where X: "convert_loop lib xs [] n = Inr (X, k)" "o1 = objs @ X"
    by (subst (asm) convert_loop_acc) (auto simp: bind_Inr_iff)
  from C obtain chunk where c: "convert_loop lib [item] [] k = Inr (chunk, k')" "o2 = o1 @ chunk"
    by (subst (asm) convert_loop_acc) (auto simp: bind_Inr_iff)
  from D obtain Y where Y: "convert_loop lib ys [] k' = Inr (Y, n')" "objs' = o2 @ Y"
    by (subst (asm) convert_loop_acc) (auto simp: bind_Inr_iff)
  from convert_loop_single[OF c(1)] X c Y show ?thesis by auto
qed

lemma convert_loop_distinct:
  assumes "convert_loop lib items [] n = Inr (objs, n')"
  shows "distinct (actor_ids objs) \<longleftrightarrow>
         distinct (map (uuid_text lib) (filter (built lib) items))"
proof -
  have "actor_ids objs =
          map (\<lambda>item. ''threat-actor--'' @ uuid_text lib item) (filter (built lib) items)"
    using convert_loop_actor_ids[OF assms] by (simp only: actor_ids.simps append_Nil)
  then show ?thesis by (simp only: distinct_map_prefix)
qed

lemma convert_run:
  assumes "load_misp_data fs input_file = Inr misp_data"
    and "py_get misp_data ''values'' (JList []) = Inr vals"
    and "py_iter vals = Inr items"
    and "convert_loop lib items [] 0 = Inr (objs, k)"
    and "objs \<noteq> []"
  shows "convert lib input_file output_file fs =
           (Inr (), fs(output_file \<mapsto> Json_text (stix_bundle_data lib objs k)))"
  using assms by (simp add: convert_def build_objects_def)

lemma convert_success:
  assumes "convert lib input_file output_file fs = (Inr (), fs')"
    and "load_misp_data fs input_file = Inr misp_data"
    and "py_get misp_data ''values'' (JList []) = Inr vals"
    and "py_iter vals = Inr items"
  shows "\<exists>objs k. convert_loop lib items [] 0 = Inr (objs, k) \<and> objs \<noteq> [] \<and>
           fs' = fs(output_file \<mapsto> Json_text (stix_bundle_data lib objs k))"
  using assms
  by (auto simp: convert_def build_objects_def bind_Inr_iff
           split: sum.splits prod.splits if_splits)

section \<open>Concrete runs\<close>

lemmas run_defs =
  create_threat_actor_def create_threat_actor_try_def ThreatActor_def dropped_def
  create_relationships_def relationship_try_def py_in_def py_iter_def py_truthy_def
  py_str_def py_int_def sanitize_list_def is_str_def the_str_def sample_library_def
  stix_id_def uuid_shaped_def hexdigit_def sample_uuids_def actor_of_def edge_of_def
  Let_def

lemmas sample_int_defs =
  sample_int_def ascii_strip_def ascii_space_def ascii_number_def is_digit_def
  digit_val_def

lemma create_threat_actor_JObj_cases:
  "create_threat_actor lib (JObj kvs) = Inr None \<or>
   (\<exists>a. create_threat_actor_try lib (JObj kvs) = Inr (Some a))"
  by (cases "create_threat_actor_try lib (JObj kvs)")
     (auto simp: create_threat_actor_def)

section \<open>Properties of the converter\<close>

text \<open>
  Claim C1. Whenever \<^verbatim>\<open>create_threat_actor\<close> builds an actor from a record whose
  \<^verbatim>\<open>uuid\<close> field holds \<open>u\<close>, the actor's identifier is \<^verbatim>\<open>threat-actor--\<close> followed by the
  text of \<open>u\<close>, which is \<open>U\<close> itself when \<open>u\<close> is the string \<open>U\<close>. Nothing else of the
  record, and nothing random, enters the identifier.
\<close>

theorem actor_id_from_uuid:
  assumes "create_threat_actor lib item = Inr (Some a)"
    and "py_subscript item ''uuid'' = Inr u"
  shows "ta_id a = ''threat-actor--'' @ py_str lib u \<and>
         (\<forall>U. u = JStr U \<longrightarrow> ta_id a = ''threat-actor--'' @ U)"
proof -
  from assms(1) have "create_threat_actor_try lib item = Inr (Some a)"
    by (simp add: create_threat_actor_Some)
  from create_threat_actor_try_Some[OF this] assms(2)
  have "ta_id a = ''threat-actor--'' @ py_str lib u" by auto
  then show ?thesis by (auto simp: py_str_def)
qed

text \<open>A record with metadata, in the stand-in packages.\<close>

theorem actor_id_from_uuid_witness:
  "create_threat_actor sample_library
     (JObj [(''uuid'', JStr uuid_a), (''value'', JStr ''APT-X''),
            (''meta'', JObj [(''country'', JStr ''RU'')])])
     = Inr (Some ((actor_of uuid_a ''APT-X'')\<lparr>ta_labels := [''Country: RU'']\<rparr>)) \<and>
   ta_id ((actor_of uuid_a ''APT-X'')\<lparr>ta_labels := [''Country: RU'']\<rparr>)
     = ''threat-actor--'' @ uuid_a"
proof -
  let ?item = "JObj [(''uuid'', JStr uuid_a), (''value'', JStr ''APT-X''),
            (''meta'', JObj [(''country'', JStr ''RU'')])]"
  let ?a = "(actor_of uuid_a ''APT-X'')\<lparr>ta_labels := [''Country: RU'']\<rparr>"
  have h1: "create_threat_actor sample_library ?item = Inr (Some ?a)"
    by (simp add: run_defs)
  have h2: "py_subscript ?item ''uuid'' = Inr (JStr uuid_a)" by simp
  from actor_id_from_uuid[OF h1 h2] h1 show ?thesis by (simp add: py_str_def)
qed

text \<open>
  Claim C3, amended. For a record whose metadata is a mapping (or absent): if
  \<^verbatim>\<open>attribution-confidence\<close> is omitted, a built actor has confidence 50; if it holds a
  value that \<^verbatim>\<open>int\<close> turns into \<open>c\<close> (90 for 90), a built actor has confidence \<open>c\<close>; if it
  holds a value on which \<^verbatim>\<open>int\<close> raises, no actor is built and the record is skipped.
  This holds whatever \<^verbatim>\<open>int\<close> reads from a string.
\<close>

theorem confidence_parsing:
  assumes "py_get (JObj kvs) ''meta'' (JObj []) = Inr (JObj m)"
  shows "(map_of m ''attribution-confidence'' = None \<longrightarrow>
            create_threat_actor lib (JObj kvs) = Inr (Some a) \<longrightarrow> ta_confidence a = 50) \<and>
         (\<forall>v c. map_of m ''attribution-confidence'' = Some v \<longrightarrow> py_int lib v = Inr c \<longrightarrow>
            create_threat_actor lib (JObj kvs) = Inr (Some a) \<longrightarrow> ta_confidence a = c) \<and>
         (\<forall>v e. map_of m ''attribution-confidence'' = Some v \<longrightarrow> py_int lib v = Inl e \<longrightarrow>
            create_threat_actor lib (JObj kvs) = Inr None)"
proof (intro conjI allI impI)
  assume "map_of m ''attribution-confidence'' = None"
    and "create_threat_actor lib (JObj kvs) = Inr (Some a)"
  then show "ta_confidence a = 50"
    using assms create_threat_actor_try_Some[of lib "JObj kvs" a]
    by (auto simp: create_threat_actor_Some py_int_def)
next
  fix v c
  assume "map_of m ''attribution-confidence'' = Some v" "py_int lib v = Inr c"
    and "create_threat_actor lib (JObj kvs) = Inr (Some a)"
  then show "ta_confidence a = c"
    using assms create_threat_actor_try_Some[of lib "JObj kvs" a]
    by (auto simp: create_threat_actor_Some)
next
  fix v e
  assume v: "map_of m ''attribution-confidence'' = Some v" "py_int lib v = Inl e"
  have "\<not> (\<exists>b. create_threat_actor_try lib (JObj kvs) = Inr (Some b))"
  proof
    assume "\<exists>b. create_threat_actor_try lib (JObj kvs) = Inr (Some b)"
    then obtain b where "create_threat_actor_try lib (JObj kvs) = Inr (Some b)" ..
    from create_threat_actor_try_Some[OF this] assms v show False by auto
  qed
  with create_threat_actor_JObj_cases[of lib kvs]
  show "create_threat_actor lib (JObj kvs) = Inr None" by blast
qed

text \<open>Records with confidence 90, with the confidences \<^verbatim>\<open>"high"\<close> and null, on which \<^verbatim>\<open>int\<close>
  raises, and with no metadata.\<close>

theorem confidence_parsing_witness:
  "py_get (JObj [(''uuid'', JStr uuid_a), (''value'', JStr ''APT-X''),
                 (''meta'', JObj [(''attribution-confidence'', JInt 90)])]) ''meta'' (JObj [])
     = Inr (JObj [(''attribution-confidence'', JInt 90)]) \<and>
   py_int sample_library (JInt 90) = Inr 90 \<and>
   create_threat_actor sample_library
     (JObj [(''uuid'', JStr uuid_a), (''value'', JStr ''APT-X''),
            (''meta'', JObj [(''attribution-confidence'', JInt 90)])])
     = Inr (Some ((actor_of uuid_a ''APT-X'')\<lparr>ta_confidence := 90\<rparr>)) \<and>
   ta_confidence ((actor_of uuid_a ''APT-X'')\<lparr>ta_confidence := 90\<rparr>) = 90 \<and>
   py_int sample_library (JStr ''high'') = Inl ValueError \<and>
   create_threat_actor sample_library
     (JObj [(''uuid'', JStr uuid_a), (''value'', JStr ''APT-X''),
            (''meta'', JObj [(''attribution-confidence'', JStr ''high'')])]) = Inr None \<and>
   py_int sample_library JNull = Inl TypeError \<and>
   create_threat_actor sample_library
     (JObj [(''uuid'', JStr uuid_a), (''value'', JStr ''APT-X''),
            (''meta'', JObj [(''attribution-confidence'', JNull)])]) = Inr None \<and>
   create_threat_actor sample_library
     (JObj [(''uuid'', JStr uuid_a), (''value'', JStr ''APT-X'')])
     = Inr (Some (actor_of uuid_a ''APT-X'')) \<and>
   ta_confidence (actor_of uuid_a ''APT-X'') = 50"
proof -
  let ?r90 = "[(''uuid'', JStr uuid_a), (''value'', JStr ''APT-X''),
               (''meta'', JObj [(''attribution-confidence'', JInt 90)])]"
  let ?rhigh = "[(''uuid'', JStr uuid_a), (''value'', JStr ''APT-X''),
               (''meta'', JObj [(''attribution-confidence'', JStr ''high'')])]"
  let ?rnull = "[(''uuid'', JStr uuid_a), (''value'', JStr ''APT-X''),
               (''meta'', JObj [(''attribution-confidence'', JNull)])]"
  let ?r0 = "[(''uuid'', JStr uuid_a), (''value'', JStr ''APT-X'')]"
  have m90: "py_get (JObj ?r90) ''meta'' (JObj []) = Inr (JObj [(''attribution-confidence'', JInt 90)])"
    by simp
  have mhigh: "py_get (JObj ?rhigh) ''meta'' (JObj [])
      = Inr (JObj [(''attribution-confidence'', JStr ''high'')])"
    by simp
  have mnull: "py_get (JObj ?rnull) ''meta'' (JObj [])
      = Inr (JObj [(''attribution-confidence'', JNull)])"
    by simp
  have m0: "py_get (JObj ?r0) ''meta'' (JObj []) = Inr (JObj [])" by simp
  have i90: "py_int sample_library (JInt 90) = Inr 90" by (simp add: py_int_def)
  have ihigh: "py_int sample_library (JStr ''high'') = Inl ValueError"
    by (simp add: py_int_def sample_library_def sample_int_defs)
  have inull: "py_int sample_library JNull = Inl TypeError" by (simp add: py_int_def)
  have b90: "create_threat_actor sample_library (JObj ?r90)
      = Inr (Some ((actor_of uuid_a ''APT-X'')\<lparr>ta_confidence := 90\<rparr>))"
    by (simp add: run_defs)
  have b0: "create_threat_actor sample_library (JObj ?r0) = Inr (Some (actor_of uuid_a ''APT-X''))"
    by (simp add: run_defs)
  have c90: "ta_confidence ((actor_of uuid_a ''APT-X'')\<lparr>ta_confidence := 90\<rparr>) = 90"
    using confidence_parsing[OF m90, where lib = sample_library
        and a = "(actor_of uuid_a ''APT-X'')\<lparr>ta_confidence := 90\<rparr>"] i90 b90 by simp
  have chigh: "create_threat_actor sample_library (JObj ?rhigh) = Inr None"
    using confidence_parsing[OF mhigh, where lib = sample_library] ihigh by simp
  have cnull: "create_threat_actor sample_library (JObj ?rnull) = Inr None"
    using confidence_parsing[OF mnull, where lib = sample_library] inull by simp
  have c0: "ta_confidence (actor_of uuid_a ''APT-X'') = 50"
    using confidence_parsing[OF m0, where lib = sample_library and a = "actor_of uuid_a ''APT-X''"] b0 by simp
  from m90 i90 b90 c90 ihigh chigh inull cnull b0 c0 show ?thesis by blast
qed

text \<open>Claim C3 as stated fails: with the confidence \<^verbatim>\<open>"high"\<close>, on which \<^verbatim>\<open>int\<close> raises, no
  actor is built, so none has confidence 50.\<close>

theorem unparsable_confidence_skips:
  "create_threat_actor sample_library
     (JObj [(''uuid'', JStr uuid_a), (''value'', JStr ''APT-X''),
            (''meta'', JObj [(''attribution-confidence'', JStr ''high'')])]) = Inr None"
  by (simp add: run_defs sample_int_defs)

text \<open>
  Claim C4, amended. \<^verbatim>\<open>_sanitize_list\<close> returns the empty list for null, a one-element
  list for a string, the elements of a list, the keys of a mapping, and raises
  \<^verbatim>\<open>TypeError\<close> for a boolean or a number.
\<close>

theorem sanitize_list_cases:
  "sanitize_list JNull = Inr [] \<and>
   sanitize_list (JStr s) = Inr [JStr s] \<and>
   sanitize_list (JList xs) = Inr xs \<and>
   sanitize_list (JObj kvs) = Inr (map (\<lambda>kv. JStr (fst kv)) kvs) \<and>
   sanitize_list (JBool b) = Inl TypeError \<and>
   sanitize_list (JInt i) = Inl TypeError \<and>
   sanitize_list (JFloat f) = Inl TypeError"
  by (simp add: sanitize_list_def py_iter_def)

text \<open>Claim C4 as stated fails: the integer 5 is not iterable.\<close>

theorem sanitize_list_raises: "sanitize_list (JInt 5) = Inl TypeError"
  by (simp add: sanitize_list_def py_iter_def)

text \<open>
  Claim C5. A record that lacks the \<^verbatim>\<open>uuid\<close> key or the \<^verbatim>\<open>value\<close> key is skipped by
  \<^verbatim>\<open>create_threat_actor\<close>, and the loop of \<^verbatim>\<open>convert\<close> over a batch that contains it does
  exactly what it does over the batch without it: it adds no object, and the records
  before and after it are converted as they would be otherwise.
\<close>

theorem missing_key_skips:
  assumes "map_of kvs ''uuid'' = None \<or> map_of kvs ''value'' = None"
  shows "create_threat_actor lib (JObj kvs) = Inr None \<and>
         convert_loop lib (xs @ JObj kvs # ys) objs n = convert_loop lib (xs @ ys) objs n"
proof -
  from assms have "\<not> set [''uuid'', ''value''] \<subseteq> set (map fst kvs)"
    by (auto simp: map_of_eq_None_iff)
  then have "create_threat_actor_try lib (JObj kvs) = Inr None"
    by (simp add: create_threat_actor_try_def del: set_simps)
  then have skip: "create_threat_actor lib (JObj kvs) = Inr None"
    by (simp add: create_threat_actor_def)
  then have "\<And>acc k. convert_loop lib (JObj kvs # ys) acc k = convert_loop lib ys acc k"
    by simp
  then have "convert_loop lib (xs @ JObj kvs # ys) objs n = convert_loop lib (xs @ ys) objs n"
    by (simp only: convert_loop_append)
  with skip show ?thesis by simp
qed

text \<open>A batch of three records whose second lacks \<^verbatim>\<open>value\<close>.\<close>

theorem missing_key_skips_witness:
  "create_threat_actor sample_library (JObj [(''uuid'', JStr uuid_b)]) = Inr None \<and>
   convert_loop sample_library
     [JObj [(''uuid'', JStr uuid_a), (''value'', JStr ''APT-X'')],
      JObj [(''uuid'', JStr uuid_b)],
      JObj [(''uuid'', JStr uuid_c), (''value'', JStr ''APT-Z'')]] [] 0
   = Inr ([Actor (actor_of uuid_a ''APT-X''), Actor (actor_of uuid_c ''APT-Z'')], 0)"
proof -
  have h: "map_of [(''uuid'', JStr uuid_b)] ''uuid'' = None \<or>
           map_of [(''uuid'', JStr uuid_b)] ''value'' = None" by simp
  have run: "convert_loop sample_library
     ([JObj [(''uuid'', JStr uuid_a), (''value'', JStr ''APT-X'')]] @
      [JObj [(''uuid'', JStr uuid_c), (''value'', JStr ''APT-Z'')]]) [] 0
   = Inr ([Actor (actor_of uuid_a ''APT-X''), Actor (actor_of uuid_c ''APT-Z'')], 0)"
    by (simp add: run_defs)
  from missing_key_skips[OF h, of sample_library
      "[JObj [(''uuid'', JStr uuid_a), (''value'', JStr ''APT-X'')]]"
      "[JObj [(''uuid'', JStr uuid_c), (''value'', JStr ''APT-Z'')]]" "[]" 0] run
  show ?thesis by (simp only: append_Cons append_Nil)
qed

text \<open>
  Claim C6, amended. Over any sequence of stubs \<^verbatim>\<open>create_relationships\<close> never raises
  and returns, in the order of the stubs, exactly one relationship (kind related-to,
  confidence 80, target \<^verbatim>\<open>threat-actor--\<close> plus the destination, description echoing the
  relation kind) for each stub that is a mapping with both \<^verbatim>\<open>dest-uuid\<close> and \<^verbatim>\<open>type\<close> and
  whose relationship the stix2 constructor accepts; every other stub is omitted and
  does not affect the edges of the rest.
\<close>

theorem relationships_exact:
  assumes "py_iter related_items = Inr stubs"
  shows "create_relationships lib src related_items n =
           Inr (spec_edges lib src stubs n, n + length (filter draws stubs))"
  using assms by (simp add: create_relationships_def relationships_loop_spec)

text \<open>Five stubs: the second lacks a field, the third is rejected, the fourth is not a
  mapping.\<close>

theorem relationships_exact_witness:
  "py_iter (JList [JObj [(''dest-uuid'', JStr uuid_b), (''type'', JStr ''uses'')],
                   JObj [(''dest-uuid'', JStr uuid_c)],
                   JObj [(''dest-uuid'', JStr ''b2''), (''type'', JStr ''uses'')],
                   JInt 7,
                   JObj [(''dest-uuid'', JStr uuid_c), (''type'', JStr ''similar'')]])
     = Inr [JObj [(''dest-uuid'', JStr uuid_b), (''type'', JStr ''uses'')],
            JObj [(''dest-uuid'', JStr uuid_c)],
            JObj [(''dest-uuid'', JStr ''b2''), (''type'', JStr ''uses'')],
            JInt 7,
            JObj [(''dest-uuid'', JStr uuid_c), (''type'', JStr ''similar'')]] \<and>
   create_relationships sample_library (''threat-actor--'' @ uuid_a)
     (JList [JObj [(''dest-uuid'', JStr uuid_b), (''type'', JStr ''uses'')],
             JObj [(''dest-uuid'', JStr uuid_c)],
             JObj [(''dest-uuid'', JStr ''b2''), (''type'', JStr ''uses'')],
             JInt 7,
             JObj [(''dest-uuid'', JStr uuid_c), (''type'', JStr ''similar'')]]) 0
     = Inr ([edge_of 0 uuid_a uuid_b ''uses'', edge_of 2 uuid_a uuid_c ''similar''], 3)"
proof -
  let ?stubs = "[JObj [(''dest-uuid'', JStr uuid_b), (''type'', JStr ''uses'')],
                 JObj [(''dest-uuid'', JStr uuid_c)],
                 JObj [(''dest-uuid'', JStr ''b2''), (''type'', JStr ''uses'')],
                 JInt 7,
                 JObj [(''dest-uuid'', JStr uuid_c), (''type'', JStr ''similar'')]]"
  have h: "py_iter (JList ?stubs) = Inr ?stubs" by (simp add: py_iter_def)
  have e: "spec_edges sample_library (''threat-actor--'' @ uuid_a) ?stubs 0
       = [edge_of 0 uuid_a uuid_b ''uses'', edge_of 2 uuid_a uuid_c ''similar'']"
    by (simp add: spec_edges_def spec_edge_def draws_def List.map_filter_simps run_defs)
  have d: "length (filter draws ?stubs) = 3"
    by (simp add: draws_def py_in_def)
  from relationships_exact[OF h, of sample_library "''threat-actor--'' @ uuid_a" 0] h e d
  show ?thesis by simp
qed

text \<open>Claim C6 as stated fails: a stub with both fields whose destination is not a
  UUID is rejected by the constructor, and no edge is produced for it.\<close>

theorem relationships_rejected_stub:
  "create_relationships sample_library (''threat-actor--'' @ uuid_a)
     (JList [JObj [(''dest-uuid'', JStr ''b2''), (''type'', JStr ''uses'')]]) 0 = Inr ([], 1)"
  by (simp add: run_defs)

text \<open>
  Claim C10, amended. The placeholder is used only when the \<^verbatim>\<open>description\<close> key is absent
  from the record. When the key is present, the built actor's description is the
  stored value if that is a string, the empty string included; the actor has no
  description if the stored value is null or the empty list; and its description is
  the \<^verbatim>\<open>str\<close> of the stored value if that is anything else.
\<close>

theorem description_default:
  assumes "create_threat_actor lib (JObj kvs) = Inr (Some a)"
  shows "(map_of kvs ''description'' = None \<longrightarrow>
            ta_description a = Some ''No description available.'') \<and>
         (\<forall>s. map_of kvs ''description'' = Some (JStr s) \<longrightarrow> ta_description a = Some s) \<and>
         (\<forall>d. map_of kvs ''description'' = Some d \<longrightarrow>
            ta_description a =
              (if d = JNull \<or> d = JList [] then None else Some (py_str lib d)))"
proof -
  from assms have "create_threat_actor_try lib (JObj kvs) = Inr (Some a)"
    by (simp add: create_threat_actor_Some)
  from create_threat_actor_try_Some[OF this] obtain d where
    d: "d = (case map_of kvs ''description'' of
               None \<Rightarrow> JStr ''No description available.'' | Some w \<Rightarrow> w)"
       "ta_description a = (if dropped d then None else Some (py_str lib d))"
    by auto
  show ?thesis
  proof (cases "map_of kvs ''description''")
    case None
    with d show ?thesis by simp
  next
    case (Some w)
    with d show ?thesis by (auto simp: dropped_def)
  qed
qed

text \<open>Descriptions stored as the empty string, as null and as the number 5.\<close>

theorem description_default_witness:
  "create_threat_actor sample_library
     (JObj [(''uuid'', JStr uuid_a), (''value'', JStr ''APT-X''), (''description'', JStr [])])
     = Inr (Some ((actor_of uuid_a ''APT-X'')\<lparr>ta_description := Some []\<rparr>)) \<and>
   ta_description ((actor_of uuid_a ''APT-X'')\<lparr>ta_description := Some []\<rparr>) = Some [] \<and>
   create_threat_actor sample_library
     (JObj [(''uuid'', JStr uuid_a), (''value'', JStr ''APT-X''), (''description'', JNull)])
     = Inr (Some ((actor_of uuid_a ''APT-X'')\<lparr>ta_description := None\<rparr>)) \<and>
   ta_description ((actor_of uuid_a ''APT-X'')\<lparr>ta_description := None\<rparr>) = None \<and>
   create_threat_actor sample_library
     (JObj [(''uuid'', JStr uuid_a), (''value'', JStr ''APT-X''), (''description'', JInt 5)])
     = Inr (Some ((actor_of uuid_a ''APT-X'')\<lparr>ta_description := Some ''5''\<rparr>)) \<and>
   ta_description ((actor_of uuid_a ''APT-X'')\<lparr>ta_description := Some ''5''\<rparr>) = Some ''5''"
proof -
  have h1: "create_threat_actor sample_library
     (JObj [(''uuid'', JStr uuid_a), (''value'', JStr ''APT-X''), (''description'', JStr [])])
     = Inr (Some ((actor_of uuid_a ''APT-X'')\<lparr>ta_description := Some []\<rparr>))"
    by (simp add: run_defs)
  have h2: "create_threat_actor sample_library
     (JObj [(''uuid'', JStr uuid_a), (''value'', JStr ''APT-X''), (''description'', JNull)])
     = Inr (Some ((actor_of uuid_a ''APT-X'')\<lparr>ta_description := None\<rparr>))"
    by (simp add: run_defs)
  have h3: "create_threat_actor sample_library
     (JObj [(''uuid'', JStr uuid_a), (''value'', JStr ''APT-X''), (''description'', JInt 5)])
     = Inr (Some ((actor_of uuid_a ''APT-X'')\<lparr>ta_description := Some ''5''\<rparr>))"
    by (simp add: run_defs sample_repr_def)
  from description_default[OF h1] description_default[OF h2] description_default[OF h3]
    h1 h2 h3
  show ?thesis by simp
qed

text \<open>Claim C10 as stated fails: with the description stored as null the built actor has
  no description, and with the number 5 stored its description is the string \<^verbatim>\<open>"5"\<close>,
  not the stored value.\<close>

theorem description_not_stored_value:
  "create_threat_actor sample_library
     (JObj [(''uuid'', JStr uuid_a), (''value'', JStr ''APT-X''), (''description'', JNull)])
     = Inr (Some ((actor_of uuid_a ''APT-X'')\<lparr>ta_description := None\<rparr>)) \<and>
   create_threat_actor sample_library
     (JObj [(''uuid'', JStr uuid_a), (''value'', JStr ''APT-X''), (''description'', JInt 5)])
     = Inr (Some ((actor_of uuid_a ''APT-X'')\<lparr>ta_description := Some ''5''\<rparr>))"
  by (simp add: run_defs sample_repr_def)

text \<open>
  Claim C7. When the loop of \<^verbatim>\<open>convert\<close> builds no object, in particular when \<^verbatim>\<open>values\<close>
  is the empty list, \<^verbatim>\<open>convert\<close> raises \<^verbatim>\<open>ValueError\<close> and leaves every file as it
  was. Whenever \<^verbatim>\<open>convert\<close> raises, the files are unchanged, and whenever it returns, the
  bundle it wrote holds at least one object.
\<close>

theorem empty_result_fails:
  "(load_misp_data fs input_file = Inr misp_data \<and>
    py_get misp_data ''values'' (JList []) = Inr vals \<and>
    py_iter vals = Inr items \<and>
    convert_loop lib items [] 0 = Inr ([], n)
      \<longrightarrow> convert lib input_file output_file fs = (Inl ValueError, fs)) \<and>
   (fs input_file = Some (Json_text (JObj kvs)) \<and> map_of kvs ''values'' = Some (JList [])
      \<longrightarrow> convert lib input_file output_file fs = (Inl ValueError, fs)) \<and>
   (\<forall>e fs'. convert lib input_file output_file fs = (Inl e, fs') \<longrightarrow> fs' = fs) \<and>
   (\<forall>fs'. convert lib input_file output_file fs = (Inr (), fs') \<longrightarrow>
      (\<exists>objs k. objs \<noteq> [] \<and>
         fs' = fs(output_file \<mapsto> Json_text (stix_bundle_data lib objs k))))"
proof (intro conjI allI impI)
  assume "load_misp_data fs input_file = Inr misp_data \<and>
    py_get misp_data ''values'' (JList []) = Inr vals \<and>
    py_iter vals = Inr items \<and>
    convert_loop lib items [] 0 = Inr ([], n)"
  then show "convert lib input_file output_file fs = (Inl ValueError, fs)"
    by (simp add: convert_def build_objects_def)
next
  assume a: "fs input_file = Some (Json_text (JObj kvs)) \<and> map_of kvs ''values'' = Some (JList [])"
  then have "''values'' \<in> set (map fst kvs)"
    by (metis map_of_eq_None_iff option.distinct(1) set_map)
  with a have "load_misp_data fs input_file = Inr (JObj kvs)"
    by (simp add: load_misp_data_def)
  with a show "convert lib input_file output_file fs = (Inl ValueError, fs)"
    by (simp add: convert_def build_objects_def py_iter_def)
next
  fix e fs'
  assume "convert lib input_file output_file fs = (Inl e, fs')"
  then show "fs' = fs"
    by (auto simp: convert_def split: sum.splits prod.splits)
next
  fix fs'
  assume "convert lib input_file output_file fs = (Inr (), fs')"
  then show "\<exists>objs k. objs \<noteq> [] \<and>
         fs' = fs(output_file \<mapsto> Json_text (stix_bundle_data lib objs k))"
    by (auto simp: convert_def build_objects_def bind_Inr_iff split: sum.splits prod.splits if_splits)
qed

text \<open>A document whose \<^verbatim>\<open>values\<close> is the empty list; the output path stays absent.\<close>

theorem empty_result_fails_witness:
  "[''in.json'' \<mapsto> Json_text (JObj [(''values'', JList [])])] ''in.json''
     = Some (Json_text (JObj [(''values'', JList [])])) \<and>
   map_of [(''values'', JList [])] ''values'' = Some (JList []) \<and>
   convert sample_library ''in.json'' ''out.json''
     [''in.json'' \<mapsto> Json_text (JObj [(''values'', JList [])])]
     = (Inl ValueError, [''in.json'' \<mapsto> Json_text (JObj [(''values'', JList [])])]) \<and>
   [''in.json'' \<mapsto> Json_text (JObj [(''values'', JList [])])] ''out.json'' = None"
proof -
  let ?fs = "[''in.json'' \<mapsto> Json_text (JObj [(''values'', JList [])])]"
  have h: "?fs ''in.json'' = Some (Json_text (JObj [(''values'', JList [])])) \<and>
           map_of [(''values'', JList [])] ''values'' = Some (JList [])"
    by simp
  from empty_result_fails[where fs = ?fs and input_file = "''in.json''"
      and kvs = "[(''values'', JList [])]" and lib = sample_library
      and output_file = "''out.json''"]
  have "?fs ''in.json'' = Some (Json_text (JObj [(''values'', JList [])])) \<and>
        map_of [(''values'', JList [])] ''values'' = Some (JList [])
        \<longrightarrow> convert sample_library ''in.json'' ''out.json'' ?fs = (Inl ValueError, ?fs)"
    by blast
  with h have "convert sample_library ''in.json'' ''out.json'' ?fs = (Inl ValueError, ?fs)"
    by blast
  with h show ?thesis by simp
qed

text \<open>
  Claim C8. Whenever \<^verbatim>\<open>convert\<close> writes a bundle for a document whose records are
  \<open>xs\<close>, then \<open>item\<close>, then \<open>ys\<close>, the objects of the bundle are the objects \<open>X\<close> of the
  records \<open>xs\<close>, then the objects of \<open>item\<close>, then the objects \<open>Y\<close> of the records \<open>ys\<close>;
  the objects of \<open>item\<close> are none when it is skipped, and otherwise its actor followed at
  once by its relationships, in the order of its stubs.
\<close>

theorem bundle_order:
  assumes "load_misp_data fs input_file = Inr misp_data"
    and "py_get misp_data ''values'' (JList []) = Inr vals"
    and "py_iter vals = Inr (xs @ item # ys)"
    and "convert lib input_file output_file fs = (Inr (), fs')"
  shows "\<exists>X k chunk k' Y n'.
           convert_loop lib xs [] 0 = Inr (X, k) \<and>
           convert_loop lib [item] [] k = Inr (chunk, k') \<and>
           convert_loop lib ys [] k' = Inr (Y, n') \<and>
           chunk =
             (case create_threat_actor lib item of
                Inr (Some a) \<Rightarrow>
                  Actor a # map Edge (spec_edges lib (ta_id a) (related_stubs item) k)
              | _ \<Rightarrow> []) \<and>
           fs' = fs(output_file \<mapsto> Json_text (stix_bundle_data lib (X @ chunk @ Y) n')) \<and>
           py_subscript (stix_bundle_data lib (X @ chunk @ Y) n') ''objects''
             = Inr (JList (map (serialize lib) X @ map (serialize lib) chunk
                           @ map (serialize lib) Y))"
proof -
  from convert_success[OF assms(4) assms(1) assms(2) assms(3)] obtain objs n' where
    run: "convert_loop lib (xs @ item # ys) [] 0 = Inr (objs, n')" and
    fs': "fs' = fs(output_file \<mapsto> Json_text (stix_bundle_data lib objs n'))"
    by blast
  from convert_loop_order[OF run] obtain X k chunk k' Y where
    p: "convert_loop lib xs [] 0 = Inr (X, k)"
       "convert_loop lib [item] [] k = Inr (chunk, k')"
       "convert_loop lib ys [] k' = Inr (Y, n')"
       "objs = [] @ X @ chunk @ Y"
       "chunk =
             (case create_threat_actor lib item of
                Inr (Some a) \<Rightarrow>
                  Actor a # map Edge (spec_edges lib (ta_id a) (related_stubs item) k)
              | _ \<Rightarrow> [])"
    by blast
  have "py_subscript (stix_bundle_data lib (X @ chunk @ Y) n') ''objects''
             = Inr (JList (map (serialize lib) X @ map (serialize lib) chunk
                           @ map (serialize lib) Y))"
    by (simp add: stix_bundle_data_def)
  with p fs' show ?thesis by (intro exI[of _ X] exI[of _ k] exI[of _ chunk] exI[of _ k'] exI[of _ Y] exI[of _ n']) simp
qed

text \<open>Three records, the second with two related stubs.\<close>

theorem bundle_order_witness:
  "convert sample_library ''in.json'' ''out.json''
     [''in.json'' \<mapsto> Json_text (JObj [(''values'', JList
        ([JObj [(''uuid'', JStr uuid_a), (''value'', JStr ''APT-X'')]] @
         JObj [(''uuid'', JStr uuid_b), (''value'', JStr ''APT-Y''),
               (''related'', JList
                  [JObj [(''dest-uuid'', JStr uuid_c), (''type'', JStr ''uses'')],
                   JObj [(''dest-uuid'', JStr uuid_a), (''type'', JStr ''similar'')]])] #
         [JObj [(''uuid'', JStr uuid_c), (''value'', JStr ''APT-Z'')]]))])]
     = (Inr (),
        [''in.json'' \<mapsto> Json_text (JObj [(''values'', JList
          ([JObj [(''uuid'', JStr uuid_a), (''value'', JStr ''APT-X'')]] @
           JObj [(''uuid'', JStr uuid_b), (''value'', JStr ''APT-Y''),
                 (''related'', JList
                    [JObj [(''dest-uuid'', JStr uuid_c), (''type'', JStr ''uses'')],
                     JObj [(''dest-uuid'', JStr uuid_a), (''type'', JStr ''similar'')]])] #
           [JObj [(''uuid'', JStr uuid_c), (''value'', JStr ''APT-Z'')]]))]),
         ''out.json'' \<mapsto> Json_text (stix_bundle_data sample_library
           [Actor (actor_of uuid_a ''APT-X''),
            Actor (actor_of uuid_b ''APT-Y''),
            Edge (edge_of 0 uuid_b uuid_c ''uses''),
            Edge (edge_of 1 uuid_b uuid_a ''similar''),
            Actor (actor_of uuid_c ''APT-Z'')] 2)]) \<and>
   (\<exists>X Y n'.
      [''in.json'' \<mapsto> Json_text (JObj [(''values'', JList
          ([JObj [(''uuid'', JStr uuid_a), (''value'', JStr ''APT-X'')]] @
           JObj [(''uuid'', JStr uuid_b), (''value'', JStr ''APT-Y''),
                 (''related'', JList
                    [JObj [(''dest-uuid'', JStr uuid_c), (''type'', JStr ''uses'')],
                     JObj [(''dest-uuid'', JStr uuid_a), (''type'', JStr ''similar'')]])] #
           [JObj [(''uuid'', JStr uuid_c), (''value'', JStr ''APT-Z'')]]))]),
       ''out.json'' \<mapsto> Json_text (stix_bundle_data sample_library
           [Actor (actor_of uuid_a ''APT-X''),
            Actor (actor_of uuid_b ''APT-Y''),
            Edge (edge_of 0 uuid_b uuid_c ''uses''),
            Edge (edge_of 1 uuid_b uuid_a ''similar''),
            Actor (actor_of uuid_c ''APT-Z'')] 2)]
      = [''in.json'' \<mapsto> Json_text (JObj [(''values'', JList
          ([JObj [(''uuid'', JStr uuid_a), (''value'', JStr ''APT-X'')]] @
           JObj [(''uuid'', JStr uuid_b), (''value'', JStr ''APT-Y''),
                 (''related'', JList
                    [JObj [(''dest-uuid'', JStr uuid_c), (''type'', JStr ''uses'')],
                     JObj [(''dest-uuid'', JStr uuid_a), (''type'', JStr ''similar'')]])] #
           [JObj [(''uuid'', JStr uuid_c), (''value'', JStr ''APT-Z'')]]))]),
         ''out.json'' \<mapsto> Json_text (stix_bundle_data sample_library
           (X @ [Actor (actor_of uuid_b ''APT-Y''),
                 Edge (edge_of 0 uuid_b uuid_c ''uses''),
                 Edge (edge_of 1 uuid_b uuid_a ''similar'')] @ Y) n')])"
proof -
  let ?x = "JObj [(''uuid'', JStr uuid_a), (''value'', JStr ''APT-X'')]"
  let ?item = "JObj [(''uuid'', JStr uuid_b), (''value'', JStr ''APT-Y''),
            (''related'', JList [JObj [(''dest-uuid'', JStr uuid_c), (''type'', JStr ''uses'')],
                                 JObj [(''dest-uuid'', JStr uuid_a), (''type'', JStr ''similar'')]])]"
  let ?z = "JObj [(''uuid'', JStr uuid_c), (''value'', JStr ''APT-Z'')]"
  let ?doc = "JObj [(''values'', JList ([?x] @ ?item # [?z]))]"
  let ?fs = "[''in.json'' \<mapsto> Json_text ?doc]"
  let ?out = "[Actor (actor_of uuid_a ''APT-X''),
             Actor (actor_of uuid_b ''APT-Y''),
             Edge (edge_of 0 uuid_b uuid_c ''uses''),
             Edge (edge_of 1 uuid_b uuid_a ''similar''),
             Actor (actor_of uuid_c ''APT-Z'')]"
  let ?fs' = "?fs(''out.json'' \<mapsto> Json_text (stix_bundle_data sample_library ?out 2))"
  let ?chunk = "[Actor (actor_of uuid_b ''APT-Y''),
                 Edge (edge_of 0 uuid_b uuid_c ''uses''),
                 Edge (edge_of 1 uuid_b uuid_a ''similar'')]"
  have h1: "load_misp_data ?fs ''in.json'' = Inr ?doc"
    by (simp add: load_misp_data_def)
  have h2: "py_get ?doc ''values'' (JList []) = Inr (JList ([?x] @ ?item # [?z]))"
  proof -
    have "\<And>L. py_get (JObj [(''values'', L)]) ''values'' (JList []) = Inr L" by simp
    then show ?thesis .
  qed
  have h3: "py_iter (JList ([?x] @ ?item # [?z])) = Inr ([?x] @ ?item # [?z])"
    by (simp only: py_iter_def json.case)
  have run: "convert_loop sample_library ([?x] @ ?item # [?z]) [] 0 = Inr (?out, 2)"
    by (simp add: run_defs)
  have h4: "convert sample_library ''in.json'' ''out.json'' ?fs = (Inr (), ?fs')"
    by (rule convert_run[OF h1 h2 h3 run]) simp
  have item: "create_threat_actor sample_library ?item = Inr (Some (actor_of uuid_b ''APT-Y''))"
    by (simp add: run_defs)
  have stubs: "spec_edges sample_library (''threat-actor--'' @ uuid_b) (related_stubs ?item) 0
      = [edge_of 0 uuid_b uuid_c ''uses'', edge_of 1 uuid_b uuid_a ''similar'']"
    by (simp add: related_stubs_def spec_edges_def spec_edge_def draws_def
        List.map_filter_simps run_defs)
  have x: "convert_loop sample_library [?x] [] 0 = Inr ([Actor (actor_of uuid_a ''APT-X'')], 0)"
    by (simp add: run_defs)
  from bundle_order[OF h1 h2 h3 h4] obtain X k chunk k' Y n' where
    p: "convert_loop sample_library [?x] [] 0 = Inr (X, k)"
       "chunk = (case create_threat_actor sample_library ?item of
                Inr (Some a) \<Rightarrow>
                  Actor a # map Edge (spec_edges sample_library (ta_id a) (related_stubs ?item) k)
              | _ \<Rightarrow> [])"
       "?fs' = ?fs(''out.json'' \<mapsto> Json_text (stix_bundle_data sample_library (X @ chunk @ Y) n'))"
    by blast
  from p(1) x have "k = 0" by simp
  with p(2) item stubs have "chunk = ?chunk"
    by (simp add: actor_of_def)
  with p(3) have "\<exists>X Y n'. ?fs' = ?fs(''out.json'' \<mapsto>
      Json_text (stix_bundle_data sample_library (X @ ?chunk @ Y) n'))"
    by blast
  with h4 show ?thesis by blast
qed

text \<open>
  Claim C9, amended. In every bundle \<^verbatim>\<open>convert\<close> writes, which holds the objects of the
  loop over the records, the identifiers of the actors are pairwise distinct exactly
  when the uuid texts of the records from which actors are built are pairwise distinct.
\<close>

theorem actor_ids_distinct_iff:
  assumes "load_misp_data fs input_file = Inr misp_data"
    and "py_get misp_data ''values'' (JList []) = Inr vals"
    and "py_iter vals = Inr items"
    and "convert lib input_file output_file fs = (Inr (), fs')"
  shows "\<exists>objs k. convert_loop lib items [] 0 = Inr (objs, k) \<and>
           fs' = fs(output_file \<mapsto> Json_text (stix_bundle_data lib objs k)) \<and>
           (distinct (actor_ids objs) \<longleftrightarrow>
            distinct (map (uuid_text lib) (filter (built lib) items)))"
proof -
  from convert_success[OF assms(4) assms(1) assms(2) assms(3)] obtain objs k where
    run: "convert_loop lib items [] 0 = Inr (objs, k)" and
    fs': "fs' = fs(output_file \<mapsto> Json_text (stix_bundle_data lib objs k))"
    by blast
  from convert_loop_distinct[OF run] run fs' show ?thesis by blast
qed

text \<open>Two records with different uuids.\<close>

theorem actor_ids_distinct_iff_witness:
  "load_misp_data
     [''in.json'' \<mapsto> Json_text (JObj [(''values'', JList
        [JObj [(''uuid'', JStr uuid_a), (''value'', JStr ''APT-X'')],
         JObj [(''uuid'', JStr uuid_b), (''value'', JStr ''APT-Y'')]])])] ''in.json''
     = Inr (JObj [(''values'', JList
        [JObj [(''uuid'', JStr uuid_a), (''value'', JStr ''APT-X'')],
         JObj [(''uuid'', JStr uuid_b), (''value'', JStr ''APT-Y'')]])]) \<and>
   convert sample_library ''in.json'' ''out.json''
     [''in.json'' \<mapsto> Json_text (JObj [(''values'', JList
        [JObj [(''uuid'', JStr uuid_a), (''value'', JStr ''APT-X'')],
         JObj [(''uuid'', JStr uuid_b), (''value'', JStr ''APT-Y'')]])])]
     = (Inr (),
        [''in.json'' \<mapsto> Json_text (JObj [(''values'', JList
           [JObj [(''uuid'', JStr uuid_a), (''value'', JStr ''APT-X'')],
            JObj [(''uuid'', JStr uuid_b), (''value'', JStr ''APT-Y'')]])]),
         ''out.json'' \<mapsto> Json_text (stix_bundle_data sample_library
           [Actor (actor_of uuid_a ''APT-X''), Actor (actor_of uuid_b ''APT-Y'')] 0)]) \<and>
   (\<exists>objs k.
      [''in.json'' \<mapsto> Json_text (JObj [(''values'', JList
           [JObj [(''uuid'', JStr uuid_a), (''value'', JStr ''APT-X'')],
            JObj [(''uuid'', JStr uuid_b), (''value'', JStr ''APT-Y'')]])]),
       ''out.json'' \<mapsto> Json_text (stix_bundle_data sample_library
           [Actor (actor_of uuid_a ''APT-X''), Actor (actor_of uuid_b ''APT-Y'')] 0)]
      = [''in.json'' \<mapsto> Json_text (JObj [(''values'', JList
           [JObj [(''uuid'', JStr uuid_a), (''value'', JStr ''APT-X'')],
            JObj [(''uuid'', JStr uuid_b), (''value'', JStr ''APT-Y'')]])]),
         ''out.json'' \<mapsto> Json_text (stix_bundle_data sample_library objs k)] \<and>
      distinct (actor_ids objs))"
proof -
  let ?items = "[JObj [(''uuid'', JStr uuid_a), (''value'', JStr ''APT-X'')],
                 JObj [(''uuid'', JStr uuid_b), (''value'', JStr ''APT-Y'')]]"
  let ?doc = "JObj [(''values'', JList ?items)]"
  let ?fs = "[''in.json'' \<mapsto> Json_text ?doc]"
  let ?fs' = "?fs(''out.json'' \<mapsto> Json_text (stix_bundle_data sample_library
           [Actor (actor_of uuid_a ''APT-X''), Actor (actor_of uuid_b ''APT-Y'')] 0))"
  have h1: "load_misp_data ?fs ''in.json'' = Inr ?doc"
    by (simp add: load_misp_data_def)
  have h2: "py_get ?doc ''values'' (JList []) = Inr (JList ?items)" by simp
  have h3: "py_iter (JList ?items) = Inr ?items" by (simp add: py_iter_def)
  have h4: "convert sample_library ''in.json'' ''out.json'' ?fs = (Inr (), ?fs')"
    by (simp add: convert_def load_misp_data_def build_objects_def run_defs)
  have d: "distinct (map (uuid_text sample_library) (filter (built sample_library) ?items))"
    by (simp add: built_def uuid_text_def run_defs)
  from actor_ids_distinct_iff[OF h1 h2 h3 h4] d
  have "\<exists>objs k. ?fs' = ?fs(''out.json'' \<mapsto> Json_text (stix_bundle_data sample_library objs k))
          \<and> distinct (actor_ids objs)"
    by blast
  with h1 h4 show ?thesis by blast
qed

text \<open>Claim C9 as stated fails: two records with the same uuid give two actors with the
  same identifier, and the bundle holding both is written.\<close>

theorem duplicate_uuid_duplicate_id:
  "convert_loop sample_library
     [JObj [(''uuid'', JStr uuid_a), (''value'', JStr ''APT-X'')],
      JObj [(''uuid'', JStr uuid_a), (''value'', JStr ''APT-Y'')]] [] 0
     = Inr ([Actor (actor_of uuid_a ''APT-X''), Actor (actor_of uuid_a ''APT-Y'')], 0) \<and>
   actor_ids [Actor (actor_of uuid_a ''APT-X''), Actor (actor_of uuid_a ''APT-Y'')]
     = [''threat-actor--'' @ uuid_a, ''threat-actor--'' @ uuid_a] \<and>
   convert sample_library ''in.json'' ''out.json''
     [''in.json'' \<mapsto> Json_text (JObj [(''values'', JList
        [JObj [(''uuid'', JStr uuid_a), (''value'', JStr ''APT-X'')],
         JObj [(''uuid'', JStr uuid_a), (''value'', JStr ''APT-Y'')]])])]
     = (Inr (),
        [''in.json'' \<mapsto> Json_text (JObj [(''values'', JList
           [JObj [(''uuid'', JStr uuid_a), (''value'', JStr ''APT-X'')],
            JObj [(''uuid'', JStr uuid_a), (''value'', JStr ''APT-Y'')]])]),
         ''out.json'' \<mapsto> Json_text (stix_bundle_data sample_library
           [Actor (actor_of uuid_a ''APT-X''), Actor (actor_of uuid_a ''APT-Y'')] 0)])"
  by (simp add: convert_def load_misp_data_def build_objects_def run_defs)

text \<open>
  Claim C2 fails on the code. A record whose \<^verbatim>\<open>related\<close> field is the number 5 builds its
  actor, and the \<^verbatim>\<open>for\<close> of \<^verbatim>\<open>create_relationships\<close>, which no \<^verbatim>\<open>try\<close> guards, raises
  \<^verbatim>\<open>TypeError\<close>; a record that is the number 5 raises inside the \<^verbatim>\<open>try\<close> of
  \<^verbatim>\<open>create_threat_actor\<close>, and the handler's own \<^verbatim>\<open>item.get\<close> raises \<^verbatim>\<open>AttributeError\<close>.
  Either way \<^verbatim>\<open>convert\<close> aborts and the first record's actor is lost.
\<close>

theorem malformed_record_aborts:
  "convert sample_library ''in.json'' ''out.json''
     [''in.json'' \<mapsto> Json_text (JObj [(''values'', JList
        [JObj [(''uuid'', JStr uuid_a), (''value'', JStr ''APT-X'')],
         JObj [(''uuid'', JStr uuid_b), (''value'', JStr ''APT-Y''), (''related'', JInt 5)]])])]
     = (Inl TypeError,
        [''in.json'' \<mapsto> Json_text (JObj [(''values'', JList
           [JObj [(''uuid'', JStr uuid_a), (''value'', JStr ''APT-X'')],
            JObj [(''uuid'', JStr uuid_b), (''value'', JStr ''APT-Y''), (''related'', JInt 5)]])])]) \<and>
   convert sample_library ''in.json'' ''out.json''
     [''in.json'' \<mapsto> Json_text (JObj [(''values'', JList
        [JObj [(''uuid'', JStr uuid_a), (''value'', JStr ''APT-X'')], JInt 5])])]
     = (Inl AttributeError,
        [''in.json'' \<mapsto> Json_text (JObj [(''values'', JList
           [JObj [(''uuid'', JStr uuid_a), (''value'', JStr ''APT-X'')], JInt 5])])])"
  by (simp add: convert_def load_misp_data_def build_objects_def py_get_def run_defs)

end
